theory Spec2Isabelle
  imports Complex_Main
begin

section \<open>JavaScript values, errors and strings\<close>

text \<open>
  The code-generation route of \<^verbatim>\<open>src/server/aiRoutes.ts\<close> receives the JSON body of a
  request, validates it with a zod schema, posts a prompt to one of three providers and
  answers with JSON. The values it handles are those of \<^verbatim>\<open>JSON.parse\<close> together with
  \<^verbatim>\<open>undefined\<close>, the result of reading a property that is not there.

  A number is carried by its value: every finite double is a rational. The program only
  observes whether a number is falsy (\<open>0\<close> or \<open>NaN\<close>) and which type name zod gives it.
  A numeric literal of the source (\<^verbatim>\<open>0.2\<close>, \<^verbatim>\<open>0.95\<close>) is carried by the decimal value
  that is written.

  A string is a list of code units; the model carries the code units below 256. An
  object is the list of its own properties in insertion order, with distinct keys.
\<close>

datatype number = Finite rat | PosInfinity | NegInfinity | NaN

datatype jsval =
    JUndefined
  | JNull
  | JBool bool
  | JNum number
  | JStr string
  | JArr "jsval list"
  | JObj "(string \<times> jsval) list"

text \<open>A thrown value: every exception of this program is an \<^verbatim>\<open>Error\<close> object, of which
  the code reads \<^verbatim>\<open>name\<close> and \<^verbatim>\<open>message\<close>.\<close>

datatype js_error = JsError (name: string) (message: string)

text \<open>JavaScript truthiness, as tested by \<^verbatim>\<open>!x\<close> and \<^verbatim>\<open>x || y\<close>.\<close>

fun truthy :: "jsval \<Rightarrow> bool" where
  "truthy JUndefined = False"
| "truthy JNull = False"
| "truthy (JBool b) = b"
| "truthy (JNum n) = (case n of Finite q \<Rightarrow> q \<noteq> 0 | NaN \<Rightarrow> False | _ \<Rightarrow> True)"
| "truthy (JStr s) = (s \<noteq> [])"
| "truthy (JArr _) = True"
| "truthy (JObj _) = True"

text \<open>\<^verbatim>\<open>a || b\<close>.\<close>

definition js_or :: "jsval \<Rightarrow> jsval \<Rightarrow> jsval" where
  "js_or a b = (if truthy a then a else b)"

text \<open>The own property \<open>k\<close> of an object, \<^verbatim>\<open>undefined\<close> when there is none.\<close>

definition own_property :: "(string \<times> jsval) list \<Rightarrow> string \<Rightarrow> jsval" where
  "own_property kvs k = (case map_of kvs k of None \<Rightarrow> JUndefined | Some v \<Rightarrow> v)"

text \<open>
  The property read \<^verbatim>\<open>v.k\<close>, for the names this program reads from parsed JSON
  (\<^verbatim>\<open>output\<close>, \<^verbatim>\<open>generated_text\<close>, \<^verbatim>\<open>text\<close>), none of which a prototype of a JSON value
  defines: an object gives its own property, \<^verbatim>\<open>null\<close> and \<^verbatim>\<open>undefined\<close> throw a
  \<^verbatim>\<open>TypeError\<close> (the message is V8's), every other value gives \<^verbatim>\<open>undefined\<close>.
\<close>

fun get_property :: "jsval \<Rightarrow> string \<Rightarrow> js_error + jsval" where
  "get_property JUndefined k =
     Inl (JsError ''TypeError''
            (''Cannot read properties of undefined (reading '' @ [CHR 0x27] @ k @ [CHR 0x27] @ '')''))"
| "get_property JNull k =
     Inl (JsError ''TypeError''
            (''Cannot read properties of null (reading '' @ [CHR 0x27] @ k @ [CHR 0x27] @ '')''))"
| "get_property (JObj kvs) k = Inr (own_property kvs k)"
| "get_property _ k = Inr JUndefined"

text \<open>
  \<^verbatim>\<open>String.prototype.trim\<close> removes white space and line terminators from both ends.
  Among the code units below 256 these are TAB, LF, VT, FF, CR, SPACE and NBSP.
\<close>

definition is_white_space :: "char \<Rightarrow> bool" where
  "is_white_space c = ((of_char c :: nat) \<in> {9, 10, 11, 12, 13, 32, 160})"

definition trim :: "string \<Rightarrow> string" where
  "trim s = rev (dropWhile is_white_space (rev (dropWhile is_white_space s)))"

text \<open>The decimal digits of a natural number, as a template literal prints an integer.\<close>

definition digit :: "nat \<Rightarrow> char" where
  "digit d =
     (if d = 0 then CHR ''0'' else if d = 1 then CHR ''1'' else if d = 2 then CHR ''2''
      else if d = 3 then CHR ''3'' else if d = 4 then CHR ''4'' else if d = 5 then CHR ''5''
      else if d = 6 then CHR ''6'' else if d = 7 then CHR ''7'' else if d = 8 then CHR ''8''
      else CHR ''9'')"

fun to_decimal :: "nat \<Rightarrow> string" where
  "to_decimal n = (if n < 10 then [digit n] else to_decimal (n div 10) @ [digit (n mod 10)])"

declare to_decimal.simps [simp del]


section \<open>Request validation: \<^verbatim>\<open>generateCodeSchema\<close>\<close>

text \<open>
  \<^verbatim>\<open>
  const generateCodeSchema = z.object({
    prompt: z.string().min(1, 'Prompt is required'),
    language: z.string().optional().default('javascript'),
    model: z.string().optional().default('codellama')
  });
  \<close>
  \<^verbatim>\<open>generateCodeSchema.parse\<close> is zod's (version 3): it returns the parsed object or throws
  a \<^verbatim>\<open>ZodError\<close> that holds the issues of all the keys, in the order of the schema.
  Unknown keys are dropped.
\<close>

record GenerateCodeRequest =
  prompt :: string
  language :: string
  model :: string

text \<open>The two kinds of issue this schema can raise, each with its path.\<close>

datatype zod_issue =
    InvalidType (expected: string) (received: string) (path: "string list")
  | TooSmall (minimum: nat) (custom_message: string) (path: "string list")

text \<open>zod's \<^verbatim>\<open>getParsedType\<close> on the values above.\<close>

fun getParsedType :: "jsval \<Rightarrow> string" where
  "getParsedType JUndefined = ''undefined''"
| "getParsedType JNull = ''null''"
| "getParsedType (JBool _) = ''boolean''"
| "getParsedType (JNum n) = (if n = NaN then ''nan'' else ''number'')"
| "getParsedType (JStr _) = ''string''"
| "getParsedType (JArr _) = ''array''"
| "getParsedType (JObj _) = ''object''"

text \<open>\<^verbatim>\<open>z.string().min(1, 'Prompt is required')\<close> at key \<^verbatim>\<open>prompt\<close>.\<close>

definition parse_prompt :: "jsval \<Rightarrow> zod_issue list + string" where
  "parse_prompt v =
     (case v of
        JStr s \<Rightarrow>
          if length s < 1 then Inl [TooSmall 1 ''Prompt is required'' [''prompt'']]
          else Inr s
      | _ \<Rightarrow> Inl [InvalidType ''string'' (getParsedType v) [''prompt'']])"

text \<open>\<^verbatim>\<open>z.string().optional().default(d)\<close> at key \<open>k\<close>: \<^verbatim>\<open>undefined\<close> takes the default, a
  string is kept, anything else (also \<^verbatim>\<open>null\<close>) is an issue.\<close>

definition parse_optional_default :: "string \<Rightarrow> string \<Rightarrow> jsval \<Rightarrow> zod_issue list + string" where
  "parse_optional_default k d v =
     (case v of
        JUndefined \<Rightarrow> Inr d
      | JStr s \<Rightarrow> Inr s
      | _ \<Rightarrow> Inl [InvalidType ''string'' (getParsedType v) [k]])"

definition issues_of :: "zod_issue list + 'a \<Rightarrow> zod_issue list" where
  "issues_of r = (case r of Inl is \<Rightarrow> is | Inr _ \<Rightarrow> [])"

definition generateCodeSchema_parse :: "jsval \<Rightarrow> zod_issue list + GenerateCodeRequest" where
  "generateCodeSchema_parse body =
     (case body of
        JObj kvs \<Rightarrow>
          (let p = parse_prompt (own_property kvs ''prompt'');
               l = parse_optional_default ''language'' ''javascript'' (own_property kvs ''language'');
               m = parse_optional_default ''model'' ''codellama'' (own_property kvs ''model'')
           in case (p, l, m) of
                (Inr p', Inr l', Inr m') \<Rightarrow> Inr \<lparr>prompt = p', language = l', model = m'\<rparr>
              | _ \<Rightarrow> Inl (issues_of p @ issues_of l @ issues_of m))
      | _ \<Rightarrow> Inl [InvalidType ''object'' (getParsedType body) []])"

text \<open>
  \<^verbatim>\<open>ZodError.message\<close> is \<^verbatim>\<open>JSON.stringify(this.issues, replacer, 2)\<close>: the issue list as
  JSON text indented by two spaces. The message of an \<^verbatim>\<open>invalid_type\<close> issue comes from
  zod's default error map and is written after the path; the message of the
  \<^verbatim>\<open>too_small\<close> issue is the one given to \<^verbatim>\<open>min\<close> and keeps its place before the path.
  The strings printed here (type names, keys, messages) need no JSON escape.
\<close>

definition newline :: string where
  "newline = [CHR 0x0A]"

definition quoted :: "string \<Rightarrow> string" where
  "quoted s = [CHR 0x22] @ s @ [CHR 0x22]"

fun join :: "string \<Rightarrow> string list \<Rightarrow> string" where
  "join sep [] = []"
| "join sep [x] = x"
| "join sep (x # y # ys) = x @ sep @ join sep (y # ys)"

definition render_path :: "string list \<Rightarrow> string" where
  "render_path ps =
     (if ps = [] then ''[]''
      else ''['' @ newline @ ''      ''
           @ join ('','' @ newline @ ''      '') (map quoted ps)
           @ newline @ ''    ]'')"

definition default_message :: "string \<Rightarrow> string \<Rightarrow> string" where
  "default_message e r =
     (if r = ''undefined'' then ''Required'' else ''Expected '' @ e @ '', received '' @ r)"

fun render_issue :: "zod_issue \<Rightarrow> string" where
  "render_issue (InvalidType e r p) =
     ''  {'' @ newline
     @ ''    '' @ quoted ''code'' @ '': '' @ quoted ''invalid_type'' @ '','' @ newline
     @ ''    '' @ quoted ''expected'' @ '': '' @ quoted e @ '','' @ newline
     @ ''    '' @ quoted ''received'' @ '': '' @ quoted r @ '','' @ newline
     @ ''    '' @ quoted ''path'' @ '': '' @ render_path p @ '','' @ newline
     @ ''    '' @ quoted ''message'' @ '': '' @ quoted (default_message e r) @ newline
     @ ''  }''"
| "render_issue (TooSmall n msg p) =
     ''  {'' @ newline
     @ ''    '' @ quoted ''code'' @ '': '' @ quoted ''too_small'' @ '','' @ newline
     @ ''    '' @ quoted ''minimum'' @ '': '' @ to_decimal n @ '','' @ newline
     @ ''    '' @ quoted ''type'' @ '': '' @ quoted ''string'' @ '','' @ newline
     @ ''    '' @ quoted ''inclusive'' @ '': true,'' @ newline
     @ ''    '' @ quoted ''exact'' @ '': false,'' @ newline
     @ ''    '' @ quoted ''message'' @ '': '' @ quoted msg @ '','' @ newline
     @ ''    '' @ quoted ''path'' @ '': '' @ render_path p @ newline
     @ ''  }''"

definition ZodError_message :: "zod_issue list \<Rightarrow> string" where
  "ZodError_message is =
     (if is = [] then ''[]''
      else ''['' @ newline @ join ('','' @ newline) (map render_issue is) @ newline @ '']'')"

section \<open>The model registry: \<^verbatim>\<open>modelEndpoints\<close>\<close>

text \<open>
  The registry is built once from the process environment, a map from variable names to
  strings. \<^verbatim>\<open>process.env.X || d\<close> is \<open>d\<close> when \<open>X\<close> is unset or empty; inside a template
  literal an unset variable prints as \<^verbatim>\<open>undefined\<close>.
\<close>

type_synonym process_env = "string \<Rightarrow> string option"

definition env_or :: "process_env \<Rightarrow> string \<Rightarrow> string \<Rightarrow> string" where
  "env_or pe k d = (case pe k of None \<Rightarrow> d | Some v \<Rightarrow> if v = [] then d else v)"

definition env_text :: "process_env \<Rightarrow> string \<Rightarrow> string" where
  "env_text pe k = (case pe k of None \<Rightarrow> ''undefined'' | Some v \<Rightarrow> v)"

record ModelEndpoint =
  url :: string
  headers :: "(string \<times> string) list"
  transform :: "jsval \<Rightarrow> js_error + jsval"

text \<open>\<^verbatim>\<open>(response) => response.output || ''\<close>\<close>

definition transform_codellama :: "jsval \<Rightarrow> js_error + jsval" where
  "transform_codellama response =
     (case get_property response ''output'' of
        Inl e \<Rightarrow> Inl e
      | Inr v \<Rightarrow> Inr (js_or v (JStr [])))"

text \<open>\<^verbatim>\<open>(response) => response.generated_text || ''\<close>\<close>

definition transform_starcoder :: "jsval \<Rightarrow> js_error + jsval" where
  "transform_starcoder response =
     (case get_property response ''generated_text'' of
        Inl e \<Rightarrow> Inl e
      | Inr v \<Rightarrow> Inr (js_or v (JStr [])))"

text \<open>\<^verbatim>\<open>(response) => response.output?.text || ''\<close>: the optional chain gives
  \<^verbatim>\<open>undefined\<close> when \<^verbatim>\<open>response.output\<close> is \<^verbatim>\<open>null\<close> or \<^verbatim>\<open>undefined\<close>.\<close>

definition transform_wizard_coder :: "jsval \<Rightarrow> js_error + jsval" where
  "transform_wizard_coder response =
     (case get_property response ''output'' of
        Inl e \<Rightarrow> Inl e
      | Inr out \<Rightarrow>
          if out = JUndefined \<or> out = JNull then Inr (js_or JUndefined (JStr []))
          else (case get_property out ''text'' of
                  Inl e \<Rightarrow> Inl e
                | Inr v \<Rightarrow> Inr (js_or v (JStr []))))"

definition modelEndpoints :: "process_env \<Rightarrow> (string \<times> ModelEndpoint) list" where
  "modelEndpoints pe =
     [(''codellama'',
       \<lparr>url = env_or pe ''CODELLAMA_API_URL'' ''https://api.replicate.com/v1/predictions'',
        headers = [(''Authorization'', ''Token '' @ env_text pe ''REPLICATE_API_KEY''),
                   (''Content-Type'', ''application/json'')],
        transform = transform_codellama\<rparr>),
      (''starcoder'',
       \<lparr>url = env_or pe ''STARCODER_API_URL''
                ''https://api.huggingface.co/models/bigcode/starcoder'',
        headers = [(''Authorization'', ''Bearer '' @ env_text pe ''HUGGINGFACE_API_KEY''),
                   (''Content-Type'', ''application/json'')],
        transform = transform_starcoder\<rparr>),
      (''wizard-coder'',
       \<lparr>url = env_or pe ''WIZARD_CODER_API_URL'' ''https://api.together.xyz/inference'',
        headers = [(''Authorization'', ''Bearer '' @ env_text pe ''TOGETHER_API_KEY''),
                   (''Content-Type'', ''application/json'')],
        transform = transform_wizard_coder\<rparr>)]"

text \<open>
  \<^verbatim>\<open>modelEndpoints[model]\<close> is a property read on an object literal, whose prototype is
  \<^verbatim>\<open>Object.prototype\<close>: a name that is not a key of the registry is still found when
  \<^verbatim>\<open>Object.prototype\<close> defines it. What is found there (a method, or the prototype
  itself for \<^verbatim>\<open>__proto__\<close>) is truthy and has neither \<^verbatim>\<open>url\<close> nor \<^verbatim>\<open>headers\<close>.
\<close>

definition object_prototype_names :: "string list" where
  "object_prototype_names =
     [''constructor'', ''hasOwnProperty'', ''isPrototypeOf'', ''propertyIsEnumerable'',
      ''toLocaleString'', ''toString'', ''valueOf'', ''__proto__'',
      ''__defineGetter__'', ''__defineSetter__'', ''__lookupGetter__'', ''__lookupSetter__'']"

datatype endpoint_lookup = Registered ModelEndpoint | Inherited | NotFound

definition lookup_endpoint :: "(string \<times> ModelEndpoint) list \<Rightarrow> string \<Rightarrow> endpoint_lookup" where
  "lookup_endpoint registry m =
     (case map_of registry m of
        Some e \<Rightarrow> Registered e
      | None \<Rightarrow> if m \<in> set object_prototype_names then Inherited else NotFound)"


section \<open>The provider call: \<^verbatim>\<open>generateCode\<close>\<close>

text \<open>
  What \<^verbatim>\<open>fetch\<close> is called with. The body is \<^verbatim>\<open>JSON.stringify\<close> of the value held in
  \<open>req_body\<close>; the signal of the request is that of the one \<^verbatim>\<open>AbortController\<close> of the call.
\<close>

record request =
  req_url :: "string option"
  req_method :: string
  req_headers :: "(string \<times> string) list option"
  req_body :: jsval

text \<open>
  What the code reads of a provider response: the status, the status text, and the
  outcome of reading the body as text (\<^verbatim>\<open>response.text()\<close>) or as JSON
  (\<^verbatim>\<open>response.json()\<close>), each of which may reject.
\<close>

record response =
  status :: nat
  statusText :: string
  body_text :: "js_error + string"
  body_json :: "js_error + jsval"

text \<open>\<^verbatim>\<open>response.ok\<close>\<close>

definition ok :: "response \<Rightarrow> bool" where
  "ok r = (200 \<le> status r \<and> status r < 300)"

text \<open>
  The provider's side of one call: the \<^verbatim>\<open>fetch\<close> promise settles after some number of
  milliseconds, by resolving with a response or rejecting with an error, or it never
  settles on its own.
\<close>

datatype provider_call = Settles nat "js_error + response" | Never

record environment =
  process_env :: process_env
  provider :: provider_call

text \<open>
  The effects of one call of \<^verbatim>\<open>generateCode\<close>, in order, up to its return:
  \<^verbatim>\<open>setTimeout(() => controller.abort(), ms)\<close>, the call of \<^verbatim>\<open>fetch\<close>, the timer's
  callback running \<^verbatim>\<open>controller.abort()\<close>, and \<^verbatim>\<open>clearTimeout(timeoutId)\<close>.
  The calls of \<^verbatim>\<open>console.error\<close> are left out.
\<close>

datatype action = SetTimeout nat | Fetch request | Abort | ClearTimeout

definition timeout_ms :: nat where
  "timeout_ms = 30000"

text \<open>
  Awaiting \<^verbatim>\<open>fetch\<close> under the timer. The timer runs its callback when it is due,
  \<open>timeout_ms\<close> after it was set; a call that has not settled before then is aborted, and
  \<^verbatim>\<open>fetch\<close> rejects with its \<^verbatim>\<open>AbortError\<close> (the name is what the code tests; the message
  is node-fetch's). A call that settles earlier gives its own outcome. The timer is
  cleared once the promise has resolved, so reading the body is not under the timer.
\<close>

definition AbortError :: js_error where
  "AbortError = JsError ''AbortError'' ''The user aborted a request.''"

definition await_fetch :: "provider_call \<Rightarrow> (js_error + response) \<times> action list" where
  "await_fetch pc =
     (case pc of
        Never \<Rightarrow> (Inl AbortError, [Abort])
      | Settles t r \<Rightarrow> if timeout_ms \<le> t then (Inl AbortError, [Abort]) else (r, []))"

text \<open>
  \<^verbatim>\<open>
  if (!result || result.trim() === '') throw new Error('Empty response from AI model');
  return result;
  \<close>
  Of the values a transform can return, only a string has a \<^verbatim>\<open>trim\<close> method; on any
  other truthy value the call \<^verbatim>\<open>result.trim()\<close> throws a \<^verbatim>\<open>TypeError\<close>.
\<close>

definition EmptyResult :: js_error where
  "EmptyResult = JsError ''Error'' ''Empty response from AI model''"

definition check_result :: "jsval \<Rightarrow> js_error + string" where
  "check_result result =
     (if \<not> truthy result then Inl EmptyResult
      else (case result of
              JStr s \<Rightarrow> if trim s = [] then Inl EmptyResult else Inr s
            | _ \<Rightarrow> Inl (JsError ''TypeError'' ''result.trim is not a function'')))"

text \<open>The statements after \<^verbatim>\<open>clearTimeout\<close>, inside the inner \<^verbatim>\<open>try\<close>.\<close>

definition handle_response :: "ModelEndpoint \<Rightarrow> response \<Rightarrow> js_error + string" where
  "handle_response endpoint r =
     (if \<not> ok r then
        (let errorText = (case body_text r of Inr t \<Rightarrow> t | Inl _ \<Rightarrow> statusText r)
         in Inl (JsError ''Error''
                   (''API request failed ('' @ to_decimal (status r) @ ''): '' @ errorText)))
      else (case body_json r of
              Inl e \<Rightarrow> Inl e
            | Inr data \<Rightarrow>
                (case transform endpoint data of
                   Inl e \<Rightarrow> Inl e
                 | Inr result \<Rightarrow> check_result result)))"

text \<open>\<^verbatim>\<open>catch (fetchError)\<close>: an error named \<^verbatim>\<open>AbortError\<close> becomes the timeout error,
  any other is thrown again. The outer \<^verbatim>\<open>catch\<close> logs and rethrows.\<close>

definition Timeout :: "string \<Rightarrow> js_error" where
  "Timeout m = JsError ''Error'' (''Request to '' @ m @ '' API timed out after 30 seconds'')"

definition catch_fetchError :: "string \<Rightarrow> js_error \<Rightarrow> js_error" where
  "catch_fetchError m fetchError =
     (if name fetchError = ''AbortError'' then Timeout m else fetchError)"

definition UnsupportedModel :: "string \<Rightarrow> js_error" where
  "UnsupportedModel m = JsError ''Error'' (''Unsupported model: '' @ m)"

definition request_body :: "string \<Rightarrow> string \<Rightarrow> jsval" where
  "request_body p l =
     JObj [(''prompt'',
            JStr (''Write '' @ l @ '' code for: '' @ p @ newline
                  @ ''Only respond with code, no explanations.'')),
           (''max_new_tokens'', JNum (Finite 1000)),
           (''temperature'', JNum (Finite (2 / 10))),
           (''top_p'', JNum (Finite (95 / 100)))]"

text \<open>
  \<^verbatim>\<open>generateCode(prompt, language, model)\<close>: the outcome (the thrown error or the returned
  string) and the trace of effects. For a name inherited from \<^verbatim>\<open>Object.prototype\<close> the
  guard \<^verbatim>\<open>!endpoint\<close> does not fire; \<^verbatim>\<open>fetch\<close> is called with \<^verbatim>\<open>undefined\<close> for the URL and
  the headers and rejects with a \<^verbatim>\<open>TypeError\<close> before anything is sent (the message is
  node-fetch's).
\<close>

definition generateCode ::
  "environment \<Rightarrow> string \<Rightarrow> string \<Rightarrow> string \<Rightarrow> (js_error + string) \<times> action list" where
  "generateCode env p l m =
     (case lookup_endpoint (modelEndpoints (process_env env)) m of
        NotFound \<Rightarrow> (Inl (UnsupportedModel m), [])
      | Inherited \<Rightarrow>
          (Inl (catch_fetchError m (JsError ''TypeError'' ''Only absolute URLs are supported'')),
           [SetTimeout timeout_ms,
            Fetch \<lparr>req_url = None, req_method = ''POST'', req_headers = None,
                   req_body = request_body p l\<rparr>])
      | Registered endpoint \<Rightarrow>
          (let req = \<lparr>req_url = Some (url endpoint), req_method = ''POST'',
                      req_headers = Some (headers endpoint), req_body = request_body p l\<rparr>
           in case await_fetch (provider env) of
                (Inl fetchError, acts) \<Rightarrow>
                  (Inl (catch_fetchError m fetchError),
                   [SetTimeout timeout_ms, Fetch req] @ acts)
              | (Inr r, acts) \<Rightarrow>
                  (case handle_response endpoint r of
                     Inl e \<Rightarrow> Inl (catch_fetchError m e)
                   | Inr result \<Rightarrow> Inr result,
                   [SetTimeout timeout_ms, Fetch req] @ acts @ [ClearTimeout])))"


section \<open>The route handler: \<^verbatim>\<open>generateCodeHandler\<close>\<close>

text \<open>What the handler does with a request: it sends a JSON response with a status, or
  it passes an error to \<^verbatim>\<open>next\<close>.\<close>

datatype outcome = Sent nat jsval | Forwarded js_error

text \<open>\<^verbatim>\<open>message || fallback\<close> on a string.\<close>

definition or_default :: "string \<Rightarrow> string \<Rightarrow> string" where
  "or_default msg fallback = (if msg = [] then fallback else msg)"

text \<open>
  The response object. \<open>res s b\<close> stands for \<^verbatim>\<open>res.status(s).json(b)\<close> (and for
  \<^verbatim>\<open>res.json(b)\<close> when \<open>s\<close> is 200): it sends the body, or it throws.
\<close>

type_synonym response_writer = "nat \<Rightarrow> jsval \<Rightarrow> js_error option"

definition send :: "response_writer \<Rightarrow> nat \<Rightarrow> jsval \<Rightarrow> js_error + outcome" where
  "send res s b = (case res s b of None \<Rightarrow> Inr (Sent s b) | Some e \<Rightarrow> Inl e)"

text \<open>What \<^verbatim>\<open>generateCodeSchema.parse\<close> throws: a \<^verbatim>\<open>ZodError\<close> with the message of its
  issues.\<close>

definition ZodError :: "zod_issue list \<Rightarrow> js_error" where
  "ZodError is = JsError ''ZodError'' (ZodError_message is)"

text \<open>
  The innermost \<^verbatim>\<open>try\<close> (the call of \<open>generateCode\<close> and \<^verbatim>\<open>res.json({ code, language })\<close>)
  with its \<^verbatim>\<open>catch (genError)\<close>. What the catch clause itself throws leaves the block.
\<close>

definition try_generate ::
  "response_writer \<Rightarrow> environment \<Rightarrow> GenerateCodeRequest \<Rightarrow> js_error + outcome" where
  "try_generate res env job =
     (case (case fst (generateCode env (prompt job) (language job) (model job)) of
              Inl e \<Rightarrow> Inl e
            | Inr code \<Rightarrow>
                send res 200 (JObj [(''code'', JStr code), (''language'', JStr (language job))]))
      of
        Inr out \<Rightarrow> Inr out
      | Inl genError \<Rightarrow>
          send res 500
            (JObj [(''error'', JStr ''Failed to generate code''),
                   (''message'',
                    JStr (or_default (message genError) ''Unknown error occurred'')),
                   (''model'', JStr (model job))]))"

text \<open>
  The middle \<^verbatim>\<open>try\<close> (validation, then the innermost \<^verbatim>\<open>try\<close> with its catch clause) with
  its \<^verbatim>\<open>catch (validationError)\<close>: it also catches what the \<^verbatim>\<open>catch (genError)\<close> clause
  throws. This is the content of the outermost \<^verbatim>\<open>try\<close>.
\<close>

definition respond :: "response_writer \<Rightarrow> environment \<Rightarrow> jsval \<Rightarrow> js_error + outcome" where
  "respond res env body =
     (case (case generateCodeSchema_parse body of
              Inl issues \<Rightarrow> Inl (ZodError issues)
            | Inr job \<Rightarrow> try_generate res env job)
      of
        Inr out \<Rightarrow> Inr out
      | Inl validationError \<Rightarrow>
          send res 400
            (JObj [(''error'', JStr ''Invalid request data''),
                   (''message'',
                    JStr (or_default (message validationError) ''Validation failed''))]))"

text \<open>The outermost \<^verbatim>\<open>catch (error) { next(error) }\<close>: whatever is thrown inside the
  outermost \<^verbatim>\<open>try\<close> is passed to \<^verbatim>\<open>next\<close>.\<close>

definition catch_next :: "js_error + outcome \<Rightarrow> outcome" where
  "catch_next r = (case r of Inl error \<Rightarrow> Forwarded error | Inr out \<Rightarrow> out)"

text \<open>The handler on a response object \<open>res\<close>.\<close>

definition generateCodeHandler_on ::
  "response_writer \<Rightarrow> environment \<Rightarrow> jsval \<Rightarrow> outcome" where
  "generateCodeHandler_on res env body = catch_next (respond res env body)"

text \<open>
  The response object of Express: \<^verbatim>\<open>res.json\<close> on an object of strings serialises and
  sends it, and does not throw. \<open>generateCodeHandler\<close> is the handler as the route runs
  it, on this response object.
\<close>

definition express_res :: response_writer where
  "express_res s b = None"

definition generateCodeHandler :: "environment \<Rightarrow> jsval \<Rightarrow> outcome" where
  "generateCodeHandler env body = generateCodeHandler_on express_res env body"


section \<open>Example requests and providers\<close>

text \<open>No environment variable is set and the provider never answers.\<close>

definition quiet_env :: environment where
  "quiet_env = \<lparr>process_env = (\<lambda>k. None), provider = Never\<rparr>"

text \<open>The provider answers after 1.2 seconds with status 200 and a body that holds code.\<close>

definition scenario_env :: environment where
  "scenario_env =
     \<lparr>process_env = (\<lambda>k. None),
      provider = Settles 1200
        (Inr \<lparr>status = 200, statusText = ''OK'',
              body_text = Inr ''{}'',
              body_json = Inr (JObj [(''output'', JStr ''def reverse(s): return s[::-1]'')])\<rparr>)\<rparr>"

definition scenario_body :: jsval where
  "scenario_body =
     JObj [(''prompt'', JStr ''reverse a string''), (''language'', JStr ''python''),
           (''model'', JStr ''codellama'')]"

text \<open>The provider answers only after 45 seconds.\<close>

definition slow_env :: environment where
  "slow_env =
     \<lparr>process_env = (\<lambda>k. None),
      provider = Settles 45000
        (Inr \<lparr>status = 200, statusText = ''OK'',
              body_text = Inr ''{}'',
              body_json = Inr (JObj [(''generated_text'', JStr ''print(1)'')])\<rparr>)\<rparr>"

definition starcoder_body :: jsval where
  "starcoder_body = JObj [(''prompt'', JStr ''print one''), (''model'', JStr ''starcoder'')]"


text \<open>A model name that \<^verbatim>\<open>Object.prototype\<close> defines, and one that nothing defines.\<close>

definition constructor_body :: jsval where
  "constructor_body = JObj [(''prompt'', JStr ''x''), (''model'', JStr ''constructor'')]"


text \<open>The provider answers 503 with a text body.\<close>

definition unavailable_env :: environment where
  "unavailable_env =
     \<lparr>process_env = (\<lambda>k. None),
      provider = Settles 300
        (Inr \<lparr>status = 503, statusText = ''Service Unavailable'',
              body_text = Inr ''upstream overloaded'',
              body_json = Inl (JsError ''FetchError'' ''invalid json response body'')\<rparr>)\<rparr>"

text \<open>The provider answers 200 with \<^verbatim>\<open>output\<close> made of a space, a line feed and a tab.\<close>

definition blank_env :: environment where
  "blank_env =
     \<lparr>process_env = (\<lambda>k. None),
      provider = Settles 800
        (Inr \<lparr>status = 200, statusText = ''OK'',
              body_text = Inr ''{}'',
              body_json = Inr (JObj [(''output'', JStr [CHR '' '', CHR 0x0A, CHR 0x09])])\<rparr>)\<rparr>"

text \<open>The provider answers 200 with the JSON body \<^verbatim>\<open>null\<close>.\<close>

definition null_body_env :: environment where
  "null_body_env =
     \<lparr>process_env = (\<lambda>k. None),
      provider = Settles 800
        (Inr \<lparr>status = 200, statusText = ''OK'',
              body_text = Inr ''null'',
              body_json = Inr JNull\<rparr>)\<rparr>"

text \<open>The provider answers 200 with \<^verbatim>\<open>{ output: { text: null } }\<close>.\<close>

definition missing_text_env :: environment where
  "missing_text_env =
     \<lparr>process_env = (\<lambda>k. None),
      provider = Settles 800
        (Inr \<lparr>status = 200, statusText = ''OK'',
              body_text = Inr ''{}'',
              body_json = Inr (JObj [(''output'', JObj [(''text'', JNull)])])\<rparr>)\<rparr>"







section \<open>Basic facts\<close>

lemma lookup_registered:
  "map_of registry m = Some e \<Longrightarrow> lookup_endpoint registry m = Registered e"
  by (simp add: lookup_endpoint_def)

lemma await_fetch_settled:
  "t < 30000 \<Longrightarrow> await_fetch (Settles t r) = (r, [])"
  by (simp add: await_fetch_def timeout_ms_def)

lemma await_fetch_late:
  "30000 \<le> t \<Longrightarrow> await_fetch (Settles t r) = (Inl AbortError, [Abort])"
  by (simp add: await_fetch_def timeout_ms_def)

lemma await_fetch_never:
  "await_fetch Never = (Inl AbortError, [Abort])"
  by (simp add: await_fetch_def)

lemma catch_fetchError_Error [simp]:
  "catch_fetchError m (JsError ''Error'' msg) = JsError ''Error'' msg"
  by (simp add: catch_fetchError_def)

lemma catch_fetchError_Abort [simp]:
  "catch_fetchError m AbortError = Timeout m"
  by (simp add: catch_fetchError_def AbortError_def)

text \<open>With a registered model and a call that resolves in time, the outcome of
  \<open>generateCode\<close> is that of the statements after \<^verbatim>\<open>clearTimeout\<close>.\<close>

lemma generateCode_resolved:
  assumes "map_of (modelEndpoints (process_env env)) m = Some endpoint"
    and "provider env = Settles t (Inr r)" and "t < 30000"
  shows "fst (generateCode env p l m) =
           (case handle_response endpoint r of
              Inl e \<Rightarrow> Inl (catch_fetchError m e) | Inr result \<Rightarrow> Inr result)"
  using assms
  by (simp add: generateCode_def lookup_registered await_fetch_settled Let_def)

text \<open>The handler on a body that validates, and on one that does not.\<close>

lemma respond_job:
  "generateCodeSchema_parse body = Inr job \<Longrightarrow>
   generateCodeHandler env body =
     (case fst (generateCode env (prompt job) (language job) (model job)) of
        Inr code \<Rightarrow> Sent 200 (JObj [(''code'', JStr code), (''language'', JStr (language job))])
      | Inl genError \<Rightarrow>
          Sent 500 (JObj [(''error'', JStr ''Failed to generate code''),
                          (''message'',
                           JStr (or_default (message genError) ''Unknown error occurred'')),
                          (''model'', JStr (model job))]))"
  by (simp add: generateCodeHandler_def generateCodeHandler_on_def catch_next_def respond_def
      try_generate_def send_def express_res_def split: sum.splits)

lemma ZodError_message_nonempty: "ZodError_message is \<noteq> []"
  by (simp add: ZodError_message_def)

lemma respond_issues:
  "generateCodeSchema_parse body = Inl is \<Longrightarrow>
   generateCodeHandler env body =
     Sent 400 (JObj [(''error'', JStr ''Invalid request data''),
                     (''message'', JStr (ZodError_message is))])"
  by (simp add: generateCodeHandler_def generateCodeHandler_on_def catch_next_def respond_def
      send_def express_res_def ZodError_def or_default_def ZodError_message_nonempty)


section \<open>Successful generation\<close>

text \<open>
  Claim C1. For a body that validates to a job whose model is a key of the registry, when
  the provider call resolves before the timer with a 2xx response whose JSON the
  endpoint's transform maps to a string that is not empty after trimming,
  \<open>generateCode\<close> returns that string and the handler answers 200 with the code and the
  job's language.
\<close>

theorem generateCode_success:
  assumes "generateCodeSchema_parse body = Inr job"
    and "map_of (modelEndpoints (process_env env)) (model job) = Some endpoint"
    and "provider env = Settles t (Inr r)" and "t < 30000"
    and "ok r" and "body_json r = Inr data"
    and "transform endpoint data = Inr (JStr code)" and "trim code \<noteq> []"
  shows "fst (generateCode env (prompt job) (language job) (model job)) = Inr code \<and>
         generateCodeHandler env body =
           Sent 200 (JObj [(''code'', JStr code), (''language'', JStr (language job))])"
proof -
  have ne: "code \<noteq> []" using assms(8) by (auto simp: trim_def)
  have hr: "handle_response endpoint r = Inr code"
    using assms(5-8) ne by (simp add: handle_response_def check_result_def)
  have gen: "fst (generateCode env (prompt job) (language job) (model job)) = Inr code"
    using generateCode_resolved [OF assms(2-4)] hr by simp
  show ?thesis using gen respond_job [OF assms(1), of env] by simp
qed

lemma scenario_parse:
  "generateCodeSchema_parse scenario_body =
     Inr \<lparr>prompt = ''reverse a string'', language = ''python'', model = ''codellama''\<rparr>"
  by (simp add: scenario_body_def generateCodeSchema_parse_def own_property_def
      parse_prompt_def parse_optional_default_def)

text \<open>The scenario of the specification: the prompt \<^verbatim>\<open>reverse a string\<close> in Python on
  \<^verbatim>\<open>codellama\<close>, the provider answering \<^verbatim>\<open>{ output: "def reverse(s): return s[::-1]" }\<close>.\<close>

theorem generateCode_success_witness:
  "fst (generateCode scenario_env ''reverse a string'' ''python'' ''codellama'')
     = Inr ''def reverse(s): return s[::-1]'' \<and>
   generateCodeHandler scenario_env scenario_body =
     Sent 200 (JObj [(''code'', JStr ''def reverse(s): return s[::-1]''),
                     (''language'', JStr ''python'')])"
proof -
  let ?job = "\<lparr>prompt = ''reverse a string'', language = ''python'', model = ''codellama''\<rparr>"
  let ?r = "\<lparr>status = 200, statusText = ''OK'', body_text = Inr ''{}'',
      body_json = Inr (JObj [(''output'', JStr ''def reverse(s): return s[::-1]'')])\<rparr>"
  let ?e = "snd (hd (modelEndpoints (process_env scenario_env)))"
  have h2: "map_of (modelEndpoints (process_env scenario_env)) (model ?job) = Some ?e"
    by (simp add: modelEndpoints_def)
  have h3: "provider scenario_env = Settles 1200 (Inr ?r)"
    by (simp add: scenario_env_def)
  have h4: "(1200::nat) < 30000" by simp
  have h5: "ok ?r" by (simp add: ok_def)
  have h6: "body_json ?r = Inr (JObj [(''output'', JStr ''def reverse(s): return s[::-1]'')])"
    by simp
  have h7: "transform ?e (JObj [(''output'', JStr ''def reverse(s): return s[::-1]'')])
      = Inr (JStr ''def reverse(s): return s[::-1]'')"
    by (simp add: modelEndpoints_def transform_codellama_def own_property_def js_or_def)
  have h8: "trim ''def reverse(s): return s[::-1]'' \<noteq> []"
    by (simp add: trim_def is_white_space_def)
  show ?thesis
    using generateCode_success [OF scenario_parse h2 h3 h4 h5 h6 h7 h8] by simp
qed


section \<open>An empty prompt\<close>

lemma parse_empty_prompt:
  "generateCodeSchema_parse (JObj [(''prompt'', JStr [])]) =
     Inl [TooSmall 1 ''Prompt is required'' [''prompt'']]"
  by (simp add: generateCodeSchema_parse_def own_property_def parse_prompt_def
      parse_optional_default_def issues_of_def)

lemma message_empty_prompt:
  \<open>ZodError_message [TooSmall 1 ''Prompt is required'' [''prompt'']] =
     join newline
       [''['',
        ''  {'',
        ''    "code": "too_small",'',
        ''    "minimum": 1,'',
        ''    "type": "string",'',
        ''    "inclusive": true,'',
        ''    "exact": false,'',
        ''    "message": "Prompt is required",'',
        ''    "path": ['',
        ''      "prompt"'',
        ''    ]'',
        ''  }'',
        '']'']\<close>
  by (simp add: ZodError_message_def render_path_def quoted_def newline_def to_decimal.simps
      digit_def)

text \<open>
  Claim C2, as the specification states it, fails: for the body \<^verbatim>\<open>{ prompt: "" }\<close> the
  handler answers 400, but the \<^verbatim>\<open>message\<close> field is not the string
  \<^verbatim>\<open>Prompt is required\<close>.
\<close>

theorem empty_prompt_message_counterexample:
  "generateCodeHandler quiet_env (JObj [(''prompt'', JStr [])]) \<noteq>
     Sent 400 (JObj [(''error'', JStr ''Invalid request data''),
                     (''message'', JStr ''Prompt is required'')])"
  using respond_issues [OF parse_empty_prompt, of quiet_env]
  by (simp add: ZodError_message_def newline_def)

text \<open>
  Claim C2, amended. For the body \<^verbatim>\<open>{ prompt: "" }\<close> the handler answers 400 with
  \<^verbatim>\<open>error\<close> equal to \<^verbatim>\<open>Invalid request data\<close> and \<^verbatim>\<open>message\<close> equal to the message of the
  \<^verbatim>\<open>ZodError\<close>: the JSON text of its issue list, whose one issue has the code
  \<^verbatim>\<open>too_small\<close>, the path \<^verbatim>\<open>prompt\<close> and the message \<^verbatim>\<open>Prompt is required\<close>.
\<close>

theorem empty_prompt_response:
  \<open>generateCodeHandler env (JObj [(''prompt'', JStr [])]) =
     Sent 400
       (JObj [(''error'', JStr ''Invalid request data''),
              (''message'',
               JStr (join newline
                 [''['',
                  ''  {'',
                  ''    "code": "too_small",'',
                  ''    "minimum": 1,'',
                  ''    "type": "string",'',
                  ''    "inclusive": true,'',
                  ''    "exact": false,'',
                  ''    "message": "Prompt is required",'',
                  ''    "path": ['',
                  ''      "prompt"'',
                  ''    ]'',
                  ''  }'',
                  '']'']))])\<close>
  using respond_issues [OF parse_empty_prompt, of env]
  by (simp only: message_empty_prompt)


section \<open>Timeout\<close>

text \<open>
  Claim C3. For a job whose model is a key of the registry, when the provider call has
  not settled after 30 seconds (it settles later, or never), the effects of
  \<open>generateCode\<close> are: the timer set to 30000 ms, the call of \<^verbatim>\<open>fetch\<close>, and the abort of
  that call by the timer, after which nothing else is done; it throws an error whose
  message names the model and the 30 seconds, and the handler answers 500.
\<close>

theorem generateCode_timeout:
  assumes "generateCodeSchema_parse body = Inr job"
    and "map_of (modelEndpoints (process_env env)) (model job) = Some endpoint"
    and "provider env = Never \<or> (\<exists>t r. provider env = Settles t r \<and> 30000 < t)"
  shows "generateCode env (prompt job) (language job) (model job) =
           (Inl (JsError ''Error''
                   (''Request to '' @ model job @ '' API timed out after 30 seconds'')),
            [SetTimeout 30000,
             Fetch \<lparr>req_url = Some (url endpoint), req_method = ''POST'',
                    req_headers = Some (headers endpoint),
                    req_body = request_body (prompt job) (language job)\<rparr>,
             Abort])
         \<and> generateCodeHandler env body =
             Sent 500 (JObj [(''error'', JStr ''Failed to generate code''),
                             (''message'',
                              JStr (''Request to '' @ model job
                                    @ '' API timed out after 30 seconds'')),
                             (''model'', JStr (model job))])"
proof -
  have aw: "await_fetch (provider env) = (Inl AbortError, [Abort])"
    using assms(3) by (auto simp: await_fetch_never await_fetch_late)
  have gen: "generateCode env (prompt job) (language job) (model job) =
           (Inl (Timeout (model job)),
            [SetTimeout 30000,
             Fetch \<lparr>req_url = Some (url endpoint), req_method = ''POST'',
                    req_headers = Some (headers endpoint),
                    req_body = request_body (prompt job) (language job)\<rparr>,
             Abort])"
    using assms(2) aw
    by (simp add: generateCode_def lookup_registered Let_def timeout_ms_def)
  show ?thesis
    using gen respond_job [OF assms(1), of env]
    by (simp add: Timeout_def or_default_def)
qed

lemma starcoder_parse:
  "generateCodeSchema_parse starcoder_body =
     Inr \<lparr>prompt = ''print one'', language = ''javascript'', model = ''starcoder''\<rparr>"
  by (simp add: starcoder_body_def generateCodeSchema_parse_def own_property_def
      parse_prompt_def parse_optional_default_def)

theorem generateCode_timeout_witness:
  "fst (generateCode slow_env ''print one'' ''javascript'' ''starcoder'') =
     Inl (JsError ''Error'' ''Request to starcoder API timed out after 30 seconds'') \<and>
   last (snd (generateCode slow_env ''print one'' ''javascript'' ''starcoder'')) = Abort \<and>
   generateCodeHandler slow_env starcoder_body =
     Sent 500 (JObj [(''error'', JStr ''Failed to generate code''),
                     (''message'',
                      JStr ''Request to starcoder API timed out after 30 seconds''),
                     (''model'', JStr ''starcoder'')])"
proof -
  let ?job = "\<lparr>prompt = ''print one'', language = ''javascript'', model = ''starcoder''\<rparr>"
  let ?e = "snd (hd (tl (modelEndpoints (process_env slow_env))))"
  have h2: "map_of (modelEndpoints (process_env slow_env)) (model ?job) = Some ?e"
    by (simp add: modelEndpoints_def)
  have h3: "provider slow_env = Never \<or>
            (\<exists>t r. provider slow_env = Settles t r \<and> 30000 < t)"
    by (simp add: slow_env_def)
  show ?thesis
    using generateCode_timeout [OF starcoder_parse h2 h3] by simp
qed

section \<open>Unsupported models\<close>

text \<open>A name that neither the registry nor \<^verbatim>\<open>Object.prototype\<close> defines is rejected
  before any effect.\<close>

lemma generateCode_unsupported:
  assumes "map_of (modelEndpoints (process_env env)) m = None"
    and "m \<notin> set object_prototype_names"
  shows "generateCode env p l m = (Inl (JsError ''Error'' (''Unsupported model: '' @ m)), [])"
  using assms by (simp add: generateCode_def lookup_endpoint_def UnsupportedModel_def)

lemma constructor_parse:
  "generateCodeSchema_parse constructor_body =
     Inr \<lparr>prompt = ''x'', language = ''javascript'', model = ''constructor''\<rparr>"
  by (simp add: constructor_body_def generateCodeSchema_parse_def own_property_def
      parse_prompt_def parse_optional_default_def)

text \<open>
  Claim C4 says that every model that is not a key of the registry is rejected with the
  unsupported-model error before any call. The code misses the names inherited from
  \<^verbatim>\<open>Object.prototype\<close>: for the body \<^verbatim>\<open>{ prompt: "x", model: "constructor" }\<close> the model is
  not a key of the registry, yet \<open>generateCode\<close> sets the timer and calls \<^verbatim>\<open>fetch\<close>, and
  neither its error nor the handler's response is the unsupported-model one.
\<close>

theorem inherited_name_not_rejected:
  "map_of (modelEndpoints (process_env quiet_env)) ''constructor'' = None \<and>
   fst (generateCode quiet_env ''x'' ''javascript'' ''constructor'')
     \<noteq> Inl (JsError ''Error'' ''Unsupported model: constructor'') \<and>
   snd (generateCode quiet_env ''x'' ''javascript'' ''constructor'') =
     [SetTimeout 30000,
      Fetch \<lparr>req_url = None, req_method = ''POST'', req_headers = None,
             req_body = request_body ''x'' ''javascript''\<rparr>] \<and>
   generateCodeHandler quiet_env constructor_body \<noteq>
     Sent 500 (JObj [(''error'', JStr ''Failed to generate code''),
                     (''message'', JStr ''Unsupported model: constructor''),
                     (''model'', JStr ''constructor'')])"
proof -
  have reg: "map_of (modelEndpoints (process_env quiet_env)) ''constructor'' = None"
    by (simp add: modelEndpoints_def)
  have look: "lookup_endpoint (modelEndpoints (process_env quiet_env)) ''constructor'' = Inherited"
    using reg by (simp add: lookup_endpoint_def object_prototype_names_def)
  have gen: "generateCode quiet_env ''x'' ''javascript'' ''constructor'' =
      (Inl (JsError ''TypeError'' ''Only absolute URLs are supported''),
       [SetTimeout 30000,
        Fetch \<lparr>req_url = None, req_method = ''POST'', req_headers = None,
               req_body = request_body ''x'' ''javascript''\<rparr>])"
    using look by (simp add: generateCode_def catch_fetchError_def timeout_ms_def)
  show ?thesis
    using reg gen respond_job [OF constructor_parse, of quiet_env]
    by (simp add: or_default_def)
qed


section \<open>Provider errors\<close>

text \<open>
  Claim C5. For a job whose model is a key of the registry, when the provider call
  resolves before the timer with a status outside 200..299, \<open>generateCode\<close> throws an
  error whose message is \<^verbatim>\<open>API request failed (<status>): <text>\<close>, where the text is the
  response body, or the status text when reading the body fails; the handler answers 500
  with that message.
\<close>

theorem provider_error:
  assumes "generateCodeSchema_parse body = Inr job"
    and "map_of (modelEndpoints (process_env env)) (model job) = Some endpoint"
    and "provider env = Settles t (Inr r)" and "t < 30000"
    and "\<not> ok r"
  shows "fst (generateCode env (prompt job) (language job) (model job)) =
           Inl (JsError ''Error''
                  (''API request failed ('' @ to_decimal (status r) @ ''): ''
                   @ (case body_text r of Inr txt \<Rightarrow> txt | Inl _ \<Rightarrow> statusText r)))
         \<and> generateCodeHandler env body =
             Sent 500 (JObj [(''error'', JStr ''Failed to generate code''),
                             (''message'',
                              JStr (''API request failed ('' @ to_decimal (status r) @ ''): ''
                                    @ (case body_text r of Inr txt \<Rightarrow> txt
                                       | Inl _ \<Rightarrow> statusText r))),
                             (''model'', JStr (model job))])"
proof -
  have hr: "handle_response endpoint r =
      Inl (JsError ''Error''
            (''API request failed ('' @ to_decimal (status r) @ ''): ''
             @ (case body_text r of Inr txt \<Rightarrow> txt | Inl _ \<Rightarrow> statusText r)))"
    using assms(5) by (simp add: handle_response_def Let_def)
  have gen: "fst (generateCode env (prompt job) (language job) (model job)) =
      Inl (JsError ''Error''
            (''API request failed ('' @ to_decimal (status r) @ ''): ''
             @ (case body_text r of Inr txt \<Rightarrow> txt | Inl _ \<Rightarrow> statusText r)))"
    using generateCode_resolved [OF assms(2-4)] hr by simp
  show ?thesis
    using gen respond_job [OF assms(1), of env] by (simp add: or_default_def)
qed

theorem provider_error_witness:
  "generateCodeHandler unavailable_env scenario_body =
     Sent 500 (JObj [(''error'', JStr ''Failed to generate code''),
                     (''message'', JStr ''API request failed (503): upstream overloaded''),
                     (''model'', JStr ''codellama'')])"
proof -
  let ?job = "\<lparr>prompt = ''reverse a string'', language = ''python'', model = ''codellama''\<rparr>"
  let ?r = "\<lparr>status = 503, statusText = ''Service Unavailable'',
              body_text = Inr ''upstream overloaded'',
              body_json = Inl (JsError ''FetchError'' ''invalid json response body'')\<rparr>"
  let ?e = "snd (hd (modelEndpoints (process_env unavailable_env)))"
  have h2: "map_of (modelEndpoints (process_env unavailable_env)) (model ?job) = Some ?e"
    by (simp add: modelEndpoints_def)
  have h3: "provider unavailable_env = Settles 300 (Inr ?r)"
    by (simp add: unavailable_env_def)
  have h4: "(300::nat) < 30000" by simp
  have h5: "\<not> ok ?r" by (simp add: ok_def)
  have dec: "to_decimal 503 = ''503''"
    by (simp add: to_decimal.simps digit_def)
  show ?thesis
    using provider_error [OF scenario_parse h2 h3 h4 h5] dec by simp
qed


section \<open>Empty results\<close>

lemma check_result_Inr: "check_result v = Inr code \<Longrightarrow> trim code \<noteq> []"
  by (auto simp: check_result_def split: if_splits jsval.splits)

lemma handle_response_Inr: "handle_response endpoint r = Inr code \<Longrightarrow> trim code \<noteq> []"
  by (auto simp: handle_response_def Let_def split: if_splits sum.splits
      dest: check_result_Inr)

lemma generateCode_Inr:
  assumes "fst (generateCode env p l m) = Inr code"
  shows "trim code \<noteq> []"
proof (cases "lookup_endpoint (modelEndpoints (process_env env)) m")
  case (Registered endpoint)
  obtain res acts where aw: "await_fetch (provider env) = (res, acts)"
    by (cases "await_fetch (provider env)")
  show ?thesis
  proof (cases res)
    case (Inl e)
    with assms Registered aw show ?thesis by (simp add: generateCode_def Let_def)
  next
    case (Inr r)
    with assms Registered aw have "handle_response endpoint r = Inr code"
      by (simp add: generateCode_def Let_def split: sum.splits)
    then show ?thesis by (rule handle_response_Inr)
  qed
next
  case Inherited
  with assms show ?thesis by (simp add: generateCode_def)
next
  case NotFound
  with assms show ?thesis by (simp add: generateCode_def)
qed

lemma generateCode_empty_transform:
  assumes "map_of (modelEndpoints (process_env env)) m = Some endpoint"
    and "provider env = Settles t (Inr r)" and "t < 30000" and "ok r"
    and "body_json r = Inr data" and "transform endpoint data = Inr (JStr s)"
    and "trim s = []"
  shows "fst (generateCode env p l m) = Inl EmptyResult"
proof -
  have "handle_response endpoint r = Inl EmptyResult"
    using assms(4-7) by (simp add: handle_response_def check_result_def)
  then show ?thesis
    using generateCode_resolved [OF assms(1-3), of p l] by (simp add: EmptyResult_def)
qed

text \<open>
  Claim C6. When a 2xx response is transformed to a string that is empty or all white
  space, \<open>generateCode\<close> throws the empty-response error; and whenever \<open>generateCode\<close>
  returns a string, that string is not empty after trimming.
\<close>

theorem empty_result:
  "(map_of (modelEndpoints (process_env env)) m = Some endpoint \<and>
    provider env = Settles t (Inr r) \<and> t < 30000 \<and> ok r \<and> body_json r = Inr data \<and>
    transform endpoint data = Inr (JStr s) \<and> trim s = []
    \<longrightarrow> fst (generateCode env p l m) = Inl (JsError ''Error'' ''Empty response from AI model''))
   \<and> (fst (generateCode env p l m) = Inr code \<longrightarrow> trim code \<noteq> [])"
proof (intro conjI impI)
  assume "map_of (modelEndpoints (process_env env)) m = Some endpoint \<and>
    provider env = Settles t (Inr r) \<and> t < 30000 \<and> ok r \<and> body_json r = Inr data \<and>
    transform endpoint data = Inr (JStr s) \<and> trim s = []"
  then have "fst (generateCode env p l m) = Inl EmptyResult"
    by (intro generateCode_empty_transform) auto
  then show "fst (generateCode env p l m) = Inl (JsError ''Error'' ''Empty response from AI model'')"
    by (simp add: EmptyResult_def)
next
  assume "fst (generateCode env p l m) = Inr code"
  then show "trim code \<noteq> []" by (rule generateCode_Inr)
qed

theorem empty_result_witness:
  "fst (generateCode blank_env ''x'' ''go'' ''codellama'') =
     Inl (JsError ''Error'' ''Empty response from AI model'') \<and>
   fst (generateCode scenario_env ''reverse a string'' ''python'' ''codellama'') =
     Inr ''def reverse(s): return s[::-1]'' \<and>
   trim ''def reverse(s): return s[::-1]'' \<noteq> []"
proof -
  let ?blank = "[CHR '' '', CHR 0x0A, CHR 0x09]"
  let ?r = "\<lparr>status = 200, statusText = ''OK'', body_text = Inr ''{}'',
      body_json = Inr (JObj [(''output'', JStr ?blank)])\<rparr>"
  let ?e = "snd (hd (modelEndpoints (process_env blank_env)))"
  have h1: "map_of (modelEndpoints (process_env blank_env)) ''codellama'' = Some ?e \<and>
    provider blank_env = Settles 800 (Inr ?r) \<and> (800::nat) < 30000 \<and> ok ?r \<and>
    body_json ?r = Inr (JObj [(''output'', JStr ?blank)]) \<and>
    transform ?e (JObj [(''output'', JStr ?blank)]) = Inr (JStr ?blank) \<and>
    trim ?blank = []"
    by (simp add: modelEndpoints_def blank_env_def ok_def transform_codellama_def
        own_property_def js_or_def trim_def is_white_space_def)
  have h2: "fst (generateCode scenario_env ''reverse a string'' ''python'' ''codellama'') =
     Inr ''def reverse(s): return s[::-1]''"
    by (simp add: generateCode_def scenario_env_def lookup_endpoint_def modelEndpoints_def
        await_fetch_def timeout_ms_def handle_response_def ok_def transform_codellama_def
        own_property_def js_or_def check_result_def trim_def is_white_space_def)
  show ?thesis
    using empty_result [of blank_env "''codellama''" ?e 800 ?r
        "JObj [(''output'', JStr ?blank)]" ?blank "''x''" "''go''"]
      empty_result [of scenario_env "''codellama''" _ _ _ _ _ "''reverse a string''"
        "''python''" "''def reverse(s): return s[::-1]''"]
      h1 h2 by simp
qed


section \<open>What validation accepts\<close>

lemma parse_optional_default_Inr:
  "parse_optional_default k d v = Inr s \<longleftrightarrow> (v = JUndefined \<and> s = d \<or> v = JStr s)"
  by (auto simp: parse_optional_default_def split: jsval.splits)

lemma parse_prompt_Inr:
  "parse_prompt v = Inr s \<longleftrightarrow> (v = JStr s \<and> 1 \<le> length s)"
  by (auto simp: parse_prompt_def Suc_le_eq split: jsval.splits)

text \<open>
  Claim C7, as the specification states it, fails: a body whose prompt is a string of
  length 1 is rejected when its language is a number.
\<close>

theorem validation_rejects_numeric_language_counterexample:
  "own_property [(''prompt'', JStr ''x''), (''language'', JNum (Finite 5))] ''prompt'' = JStr ''x'' \<and>
   1 \<le> length ''x'' \<and>
   generateCodeSchema_parse (JObj [(''prompt'', JStr ''x''), (''language'', JNum (Finite 5))]) =
     Inl [InvalidType ''string'' ''number'' [''language'']]"
  by (simp add: generateCodeSchema_parse_def own_property_def parse_prompt_def
      parse_optional_default_def issues_of_def)

text \<open>
  Claim C7, amended. Validation returns a job exactly for the objects whose \<^verbatim>\<open>prompt\<close> is
  a string of length at least 1 and whose \<^verbatim>\<open>language\<close> and \<^verbatim>\<open>model\<close> are each absent or a
  string; the job holds the prompt, the language given or \<^verbatim>\<open>javascript\<close> when absent, and
  the model given or \<^verbatim>\<open>codellama\<close> when absent. Every other input fails with a
  \<^verbatim>\<open>ZodError\<close>.
\<close>

theorem validation_accepts:
  "generateCodeSchema_parse body = Inr job \<longleftrightarrow>
     (\<exists>kvs. body = JObj kvs \<and>
        own_property kvs ''prompt'' = JStr (prompt job) \<and> 1 \<le> length (prompt job) \<and>
        (own_property kvs ''language'' = JUndefined \<and> language job = ''javascript'' \<or>
         own_property kvs ''language'' = JStr (language job)) \<and>
        (own_property kvs ''model'' = JUndefined \<and> model job = ''codellama'' \<or>
         own_property kvs ''model'' = JStr (model job)))"
proof (cases body)
  case (JObj kvs)
  have "generateCodeSchema_parse (JObj kvs) = Inr job \<longleftrightarrow>
     (parse_prompt (own_property kvs ''prompt'') = Inr (prompt job) \<and>
      parse_optional_default ''language'' ''javascript'' (own_property kvs ''language'')
        = Inr (language job) \<and>
      parse_optional_default ''model'' ''codellama'' (own_property kvs ''model'')
        = Inr (model job))"
    by (auto simp: generateCodeSchema_parse_def Let_def split: sum.splits)
  then show ?thesis
    using JObj by (simp add: parse_prompt_Inr parse_optional_default_Inr)
qed (simp_all add: generateCodeSchema_parse_def)


section \<open>The request sent to the provider\<close>

text \<open>
  Claim C8. For every prompt and language and every key of the registry, \<open>generateCode\<close>
  sets the timer and then calls \<^verbatim>\<open>fetch\<close> with the endpoint's URL and headers and with the
  body \<^verbatim>\<open>{ prompt, max_new_tokens: 1000, temperature: 0.2, top_p: 0.95 }\<close>, where the prompt
  is \<^verbatim>\<open>Write <language> code for: <prompt>\<close>, a line feed, and
  \<^verbatim>\<open>Only respond with code, no explanations.\<close>; the three parameters do not depend on the
  model.
\<close>

theorem provider_request_body:
  assumes "map_of (modelEndpoints (process_env env)) m = Some endpoint"
  shows "\<exists>acts. snd (generateCode env p l m) =
           SetTimeout 30000
           # Fetch \<lparr>req_url = Some (url endpoint), req_method = ''POST'',
                    req_headers = Some (headers endpoint),
                    req_body =
                      JObj [(''prompt'',
                             JStr (''Write '' @ l @ '' code for: '' @ p @ [CHR 0x0A]
                                   @ ''Only respond with code, no explanations.'')),
                            (''max_new_tokens'', JNum (Finite 1000)),
                            (''temperature'', JNum (Finite (2 / 10))),
                            (''top_p'', JNum (Finite (95 / 100)))]\<rparr>
           # acts"
proof -
  obtain res acts where aw: "await_fetch (provider env) = (res, acts)"
    by (cases "await_fetch (provider env)")
  show ?thesis
    using assms aw
    by (cases res)
       (simp_all add: generateCode_def lookup_registered Let_def request_body_def
          newline_def timeout_ms_def)
qed

theorem provider_request_body_witness:
  "hd (snd (generateCode quiet_env ''sort a list'' ''python'' ''wizard-coder'')) =
     SetTimeout 30000 \<and>
   hd (tl (snd (generateCode quiet_env ''sort a list'' ''python'' ''wizard-coder''))) =
     Fetch \<lparr>req_url = Some ''https://api.together.xyz/inference'', req_method = ''POST'',
            req_headers = Some [(''Authorization'', ''Bearer undefined''),
                                (''Content-Type'', ''application/json'')],
            req_body =
              JObj [(''prompt'',
                     JStr (''Write python code for: sort a list'' @ [CHR 0x0A]
                           @ ''Only respond with code, no explanations.'')),
                    (''max_new_tokens'', JNum (Finite 1000)),
                    (''temperature'', JNum (Finite (2 / 10))),
                    (''top_p'', JNum (Finite (95 / 100)))]\<rparr>"
proof -
  let ?e = "snd (hd (tl (tl (modelEndpoints (process_env quiet_env)))))"
  have h: "map_of (modelEndpoints (process_env quiet_env)) ''wizard-coder'' = Some ?e"
    by (simp add: modelEndpoints_def)
  have e: "url ?e = ''https://api.together.xyz/inference'' \<and>
           headers ?e = [(''Authorization'', ''Bearer undefined''),
                         (''Content-Type'', ''application/json'')]"
    by (simp add: modelEndpoints_def quiet_env_def env_or_def env_text_def)
  show ?thesis
    using provider_request_body [OF h, of "''sort a list''" "''python''"] e
    by auto
qed


section \<open>Every request ends in a response or in \<^verbatim>\<open>next\<close>\<close>








section \<open>A response without the field the transform reads\<close>

lemma transform_codellama_missing:
  "get_property data ''output'' = Inr JUndefined \<or> get_property data ''output'' = Inr JNull
   \<Longrightarrow> transform_codellama data = Inr (JStr [])"
  by (auto simp: transform_codellama_def js_or_def)

lemma transform_starcoder_missing:
  "get_property data ''generated_text'' = Inr JUndefined \<or>
   get_property data ''generated_text'' = Inr JNull
   \<Longrightarrow> transform_starcoder data = Inr (JStr [])"
  by (auto simp: transform_starcoder_def js_or_def)

lemma transform_wizard_coder_missing:
  "get_property data ''output'' = Inr out \<Longrightarrow>
   out = JUndefined \<or> out = JNull \<or>
   get_property out ''text'' = Inr JUndefined \<or> get_property out ''text'' = Inr JNull
   \<Longrightarrow> transform_wizard_coder data = Inr (JStr [])"
  by (auto simp: transform_wizard_coder_def js_or_def)

lemma registry_codellama:
  "map_of (modelEndpoints pe) ''codellama'' = Some e \<Longrightarrow> transform e = transform_codellama"
  by (auto simp: modelEndpoints_def)

lemma registry_starcoder:
  "map_of (modelEndpoints pe) ''starcoder'' = Some e \<Longrightarrow> transform e = transform_starcoder"
  by (auto simp: modelEndpoints_def)

lemma registry_wizard_coder:
  "map_of (modelEndpoints pe) ''wizard-coder'' = Some e \<Longrightarrow>
   transform e = transform_wizard_coder"
  by (auto simp: modelEndpoints_def)

lemma registry_keys:
  "map_of (modelEndpoints pe) m \<noteq> None \<longleftrightarrow>
   m = ''codellama'' \<or> m = ''starcoder'' \<or> m = ''wizard-coder''"
  by (simp add: modelEndpoints_def)

text \<open>
  Claim C10, as stated, fails on the JSON body \<^verbatim>\<open>null\<close>: it has no \<^verbatim>\<open>output\<close> field, the
  transform of \<^verbatim>\<open>codellama\<close> throws on reading the property, and \<open>generateCode\<close> fails with
  that error, not with the empty-response one.
\<close>

theorem null_body_counterexample:
  "transform_codellama JNull \<noteq> Inr (JStr []) \<and>
   fst (generateCode null_body_env ''x'' ''javascript'' ''codellama'')
     \<noteq> Inl (JsError ''Error'' ''Empty response from AI model'')"
  by (simp add: transform_codellama_def generateCode_def null_body_env_def
      lookup_endpoint_def modelEndpoints_def await_fetch_def timeout_ms_def
      handle_response_def ok_def catch_fetchError_def)

text \<open>
  Claim C10, amended. For a 2xx response whose JSON is a value on which the property can
  be read (any value but \<^verbatim>\<open>null\<close>) and in which the field the transform reads is absent or
  \<^verbatim>\<open>null\<close> (\<^verbatim>\<open>output\<close> for \<^verbatim>\<open>codellama\<close>, \<^verbatim>\<open>generated_text\<close> for \<^verbatim>\<open>starcoder\<close>, \<^verbatim>\<open>output\<close> or
  \<^verbatim>\<open>output.text\<close> for \<^verbatim>\<open>wizard-coder\<close>), the transform returns the empty string and
  \<open>generateCode\<close> fails with the empty-response error.
\<close>

theorem missing_field_empty_result:
  assumes "provider env = Settles t (Inr r)" and "t < 30000" and "ok r"
    and "body_json r = Inr data"
    and "m = ''codellama'' \<and>
           (get_property data ''output'' = Inr JUndefined \<or>
            get_property data ''output'' = Inr JNull)
         \<or> m = ''starcoder'' \<and>
           (get_property data ''generated_text'' = Inr JUndefined \<or>
            get_property data ''generated_text'' = Inr JNull)
         \<or> m = ''wizard-coder'' \<and>
           (\<exists>out. get_property data ''output'' = Inr out \<and>
              (out = JUndefined \<or> out = JNull \<or>
               get_property out ''text'' = Inr JUndefined \<or>
               get_property out ''text'' = Inr JNull))"
  shows "(\<exists>endpoint. map_of (modelEndpoints (process_env env)) m = Some endpoint \<and>
            transform endpoint data = Inr (JStr []))
         \<and> fst (generateCode env p l m) =
             Inl (JsError ''Error'' ''Empty response from AI model'')"
proof -
  have "m = ''codellama'' \<or> m = ''starcoder'' \<or> m = ''wizard-coder''"
    using assms(5) by auto
  then obtain endpoint where reg: "map_of (modelEndpoints (process_env env)) m = Some endpoint"
    using registry_keys [of "process_env env" m] by auto
  have tr: "transform endpoint data = Inr (JStr [])"
    using assms(5) reg
    by (auto simp: registry_codellama registry_starcoder registry_wizard_coder
        transform_codellama_missing transform_starcoder_missing
        dest: transform_wizard_coder_missing)
  have "trim [] = []" by (simp add: trim_def)
  then show ?thesis
    using reg tr generateCode_empty_transform [OF reg assms(1-4) tr, of p l]
    by (simp add: EmptyResult_def)
qed

theorem missing_field_empty_result_witness:
  "fst (generateCode missing_text_env ''x'' ''javascript'' ''wizard-coder'') =
     Inl (JsError ''Error'' ''Empty response from AI model'')"
proof -
  let ?data = "JObj [(''output'', JObj [(''text'', JNull)])]"
  let ?r = "\<lparr>status = 200, statusText = ''OK'', body_text = Inr ''{}'',
             body_json = Inr ?data\<rparr>"
  have h1: "provider missing_text_env = Settles 800 (Inr ?r)"
    by (simp add: missing_text_env_def)
  have h2: "(800::nat) < 30000" by simp
  have h3: "ok ?r" by (simp add: ok_def)
  have h4: "body_json ?r = Inr ?data" by simp
  have h5: "''wizard-coder'' = ''codellama'' \<and>
           (get_property ?data ''output'' = Inr JUndefined \<or>
            get_property ?data ''output'' = Inr JNull)
         \<or> ''wizard-coder'' = ''starcoder'' \<and>
           (get_property ?data ''generated_text'' = Inr JUndefined \<or>
            get_property ?data ''generated_text'' = Inr JNull)
         \<or> ''wizard-coder'' = ''wizard-coder'' \<and>
           (\<exists>out. get_property ?data ''output'' = Inr out \<and>
              (out = JUndefined \<or> out = JNull \<or>
               get_property out ''text'' = Inr JUndefined \<or>
               get_property out ''text'' = Inr JNull))"
    by (simp add: own_property_def)
  show ?thesis
    using missing_field_empty_result [OF h1 h2 h3 h4 h5] by simp
qed

end
